theory Spec2Isabelle
  imports Complex_Main
begin

section \<open>JavaScript values used by app.js\<close>

text \<open>
  The application (src/app.js) parses a JSON file into the array \<open>airbnb_json\<close> once at
  start-up and answers every request by reading that array. The embedding below follows
  the handlers of app.js line by line; everything that the JavaScript runtime or the
  express-validator library does for them is written out as a HOL function.

  Strings are lists of code units. HOL characters have 8 bits, so the model covers the
  strings whose code units lie in \<open>U+0000 .. U+00FF\<close>; \<open>toLowerCase\<close>, \<open>trim\<close> and
  \<open>parseFloat\<close> are the ECMAScript functions restricted to that range.
\<close>

subsection \<open>Strings\<close>

definition code_unit :: "char \<Rightarrow> nat" where
  "code_unit c = of_char c"

text \<open>White space and line terminators of ECMAScript below \<open>U+0100\<close>:
  TAB, LF, VT, FF, CR, SP and NBSP.\<close>

definition is_space :: "char \<Rightarrow> bool" where
  "is_space c = (code_unit c \<in> {9, 10, 11, 12, 13, 32, 160})"

definition is_digit :: "char \<Rightarrow> bool" where
  "is_digit c = (48 \<le> code_unit c \<and> code_unit c \<le> 57)"

text \<open>\<open>String.prototype.trim\<close>: white space is removed at both ends.\<close>

definition trim :: "string \<Rightarrow> string" where
  "trim s = rev (dropWhile is_space (rev (dropWhile is_space s)))"

text \<open>\<open>String.prototype.toLowerCase\<close>: \<open>A..Z\<close> and the Latin-1 capitals
  \<open>U+00C0 .. U+00DE\<close> (without the multiplication sign \<open>U+00D7\<close>) move up by 32.\<close>

definition lower_char :: "char \<Rightarrow> char" where
  "lower_char c =
     (let n = code_unit c
      in if (65 \<le> n \<and> n \<le> 90) \<or> (192 \<le> n \<and> n \<le> 214) \<or> (216 \<le> n \<and> n \<le> 222)
         then char_of (n + 32) else c)"

definition toLowerCase :: "string \<Rightarrow> string" where
  "toLowerCase s = map lower_char s"

fun starts_with :: "string \<Rightarrow> string \<Rightarrow> bool" where
  "starts_with s [] = True"
| "starts_with [] (p # ps) = False"
| "starts_with (c # s) (p # ps) = (c = p \<and> starts_with s ps)"

text \<open>\<open>String.prototype.includes\<close>: the argument occurs somewhere as a contiguous block.\<close>

fun str_includes :: "string \<Rightarrow> string \<Rightarrow> bool" where
  "str_includes [] sub = (sub = [])"
| "str_includes (c # s) sub = (starts_with (c # s) sub \<or> str_includes s sub)"

text \<open>\<open>String.prototype.replace\<close> with a string pattern: only the first occurrence is
  replaced, wherever it stands. (The replacement used by app.js is the empty string, so
  the \<open>$\<close>-patterns of replacement strings play no role.)\<close>

fun replace_first :: "string \<Rightarrow> string \<Rightarrow> string \<Rightarrow> string" where
  "replace_first [] pat new = (if pat = [] then new else [])"
| "replace_first (c # s) pat new =
     (if starts_with (c # s) pat then new @ drop (length pat) (c # s)
      else c # replace_first s pat new)"

subsection \<open>Numbers\<close>

text \<open>
  A Number is NaN, an infinity, or a finite binary64 value, kept as the rational it
  denotes. The two zeros are identified: the program compares numbers with \<open>>=\<close> and
  \<open><=\<close>, tests them for truthiness and puts them into template literals, and none of
  these tells the zeros apart.
\<close>

datatype jsnum = NaN | NegInf | Fin rat | PosInf

fun num_le :: "jsnum \<Rightarrow> jsnum \<Rightarrow> bool" where
  "num_le NaN _ = False"
| "num_le _ NaN = False"
| "num_le NegInf _ = True"
| "num_le _ PosInf = True"
| "num_le (Fin a) (Fin b) = (a \<le> b)"
| "num_le _ _ = False"

definition num_ge :: "jsnum \<Rightarrow> jsnum \<Rightarrow> bool" where
  "num_ge a b = num_le b a"

fun num_gt :: "jsnum \<Rightarrow> jsnum \<Rightarrow> bool" where
  "num_gt NaN _ = False"
| "num_gt _ NaN = False"
| "num_gt PosInf b = (b \<noteq> PosInf)"
| "num_gt a NegInf = (a \<noteq> NegInf)"
| "num_gt (Fin a) (Fin b) = (b < a)"
| "num_gt _ _ = False"

fun num_neg :: "jsnum \<Rightarrow> jsnum" where
  "num_neg NaN = NaN"
| "num_neg NegInf = PosInf"
| "num_neg PosInf = NegInf"
| "num_neg (Fin a) = Fin (- a)"

text \<open>Rounding of a positive fraction \<open>n / d\<close> to the nearest binary64 value, ties to
  even: \<open>bit_length\<close> finds the binary exponent, the significand has 53 bits, the
  smallest exponent is \<open>-1022\<close> (below it the values are subnormal), and a rounded value
  of \<open>2 ^ 1024\<close> or more is Infinity.\<close>

fun bit_length :: "nat \<Rightarrow> nat" where
  "bit_length n = (if n = 0 then 0 else Suc (bit_length (n div 2)))"

declare bit_length.simps [simp del]

definition pow2 :: "int \<Rightarrow> rat" where
  "pow2 e = (if 0 \<le> e then 2 ^ nat e else 1 / 2 ^ nat (- e))"

definition round_half_even :: "nat \<Rightarrow> nat \<Rightarrow> nat" where
  "round_half_even a b =
     (let f = a div b; r = a mod b
      in if 2 * r < b then f else if b < 2 * r then f + 1 else if even f then f else f + 1)"

definition round_binary64 :: "nat \<Rightarrow> nat \<Rightarrow> jsnum" where
  "round_binary64 n d =
     (let e0 = int (bit_length n) - int (bit_length d);
          e1 = (if pow2 e0 * of_nat d \<le> of_nat n then e0 else e0 - 1);
          e = max e1 (- 1022);
          s = e - 52;
          m = (if s \<le> 0 then round_half_even (n * 2 ^ nat (- s)) d
               else round_half_even n (d * 2 ^ nat s));
          r = of_nat m * pow2 s
      in if pow2 1024 \<le> r then PosInf else Fin r)"

definition decimal_value :: "bool \<Rightarrow> nat \<Rightarrow> int \<Rightarrow> jsnum" where
  "decimal_value neg m e =
     (if m = 0 then Fin 0
      else let r = (if 0 \<le> e then round_binary64 (m * 10 ^ nat e) 1
                    else round_binary64 m (10 ^ nat (- e)))
           in if neg then num_neg r else r)"

definition digit_val :: "char \<Rightarrow> nat" where
  "digit_val c = code_unit c - 48"

definition digits_val :: "string \<Rightarrow> nat" where
  "digits_val ds = foldl (\<lambda>a c. 10 * a + digit_val c) 0 ds"

text \<open>The exponent part \<open>[eE][+-]?digits\<close>; without a digit it is not part of the
  literal and counts as 0.\<close>

definition exponent_part :: "string \<Rightarrow> int" where
  "exponent_part r =
     (case r of
        [] \<Rightarrow> 0
      | c # r1 \<Rightarrow>
          if c = CHR ''e'' \<or> c = CHR ''E'' then
            (case r1 of
               [] \<Rightarrow> 0
             | d # r2 \<Rightarrow>
                 if d = CHR ''-'' then - int (digits_val (takeWhile is_digit r2))
                 else if d = CHR ''+'' then int (digits_val (takeWhile is_digit r2))
                 else int (digits_val (takeWhile is_digit r1)))
          else 0)"

text \<open>\<open>parseFloat\<close>: leading white space is skipped, the longest prefix that is a decimal
  literal (optional sign, \<open>Infinity\<close> or digits with an optional fraction and exponent) is
  converted, whatever follows is ignored, and NaN is the result when there is no such
  prefix.\<close>

definition parseFloat :: "string \<Rightarrow> jsnum" where
  "parseFloat s =
     (let t = dropWhile is_space s;
          neg = (case t of [] \<Rightarrow> False | c # _ \<Rightarrow> c = CHR ''-'');
          u = (case t of [] \<Rightarrow> t | c # r \<Rightarrow> if c = CHR ''-'' \<or> c = CHR ''+'' then r else t)
      in if starts_with u ''Infinity'' then (if neg then NegInf else PosInf)
         else
           let ip = takeWhile is_digit u;
               r1 = dropWhile is_digit u;
               dot = (case r1 of [] \<Rightarrow> False | c # _ \<Rightarrow> c = CHR ''.'');
               fp = (if dot then takeWhile is_digit (tl r1) else []);
               r2 = (if dot then dropWhile is_digit (tl r1) else r1)
           in if ip = [] \<and> fp = [] then NaN
              else decimal_value neg (digits_val (ip @ fp)) (exponent_part r2 - int (length fp)))"

subsection \<open>Values and listings\<close>

text \<open>What \<open>JSON.parse\<close> can put into a property, and \<open>undefined\<close> for a property that
  the object does not have. Arrays and objects are not inspected by the program.\<close>

datatype jsval = JUndefined | JNull | JBool bool | JNum jsnum | JStr string | JObject

fun truthy :: "jsval \<Rightarrow> bool" where
  "truthy JUndefined = False"
| "truthy JNull = False"
| "truthy (JBool b) = b"
| "truthy (JNum n) = (n \<noteq> NaN \<and> n \<noteq> Fin 0)"
| "truthy (JStr s) = (s \<noteq> [])"
| "truthy JObject = True"

fun is_string :: "jsval \<Rightarrow> bool" where
  "is_string (JStr s) = True"
| "is_string _ = False"

text \<open>\<open>v === s\<close> for a string \<open>s\<close>: no conversion takes place, so only a string with the
  same code units is equal to \<open>s\<close>.\<close>

fun strict_equals_string :: "jsval \<Rightarrow> string \<Rightarrow> bool" where
  "strict_equals_string (JStr t) s = (t = s)"
| "strict_equals_string _ s = False"

text \<open>One element of \<open>airbnb_json\<close>: a JSON object, kept as the list of its members in
  the order of the file. Reading a property gives its value, the value of the last
  member when a key occurs twice (as \<open>JSON.parse\<close> does), and \<open>undefined\<close> when the object
  has no such key. Keys are case-sensitive. The handlers read \<open>item.id\<close>, \<open>item.NAME\<close>
  and \<open>item.price\<close>; all other members are handed to the views untouched.\<close>

type_synonym listing = "(string \<times> jsval) list"

definition get :: "listing \<Rightarrow> string \<Rightarrow> jsval" where
  "get item key = (case map_of (rev item) key of None \<Rightarrow> JUndefined | Some v \<Rightarrow> v)"

datatype error = TypeError

section \<open>The queries of the route handlers\<close>

subsection \<open>Array operations\<close>

text \<open>\<open>Array.prototype.slice(start, end)\<close>: a negative argument counts from the end, both
  are clamped to the array, and nothing is an error.\<close>

definition relative_index :: "int \<Rightarrow> nat \<Rightarrow> nat" where
  "relative_index i len = (if i < 0 then nat (max (int len + i) 0) else min (nat i) len)"

definition js_slice :: "'a list \<Rightarrow> int \<Rightarrow> int \<Rightarrow> 'a list" where
  "js_slice xs start end' =
     (let k = relative_index start (length xs); f = relative_index end' (length xs)
      in take (f - k) (drop k xs))"

text \<open>\<open>xs[key]\<close> where the key is the decimal numeral of an integer \<open>i\<close>, as the route
  parameter \<open>:index\<close> of an integer index is: the element at \<open>i\<close> when \<open>0 <= i < length\<close>,
  and \<open>undefined\<close> otherwise (a negative numeral or one beyond the length names no
  property of an array). Keys that are not integer numerals (\<open>length\<close>, the names of
  inherited members) are outside the model.\<close>

definition js_index :: "'a list \<Rightarrow> int \<Rightarrow> 'a option" where
  "js_index xs i = (if 0 \<le> i \<and> i < int (length xs) then Some (xs ! nat i) else None)"

text \<open>\<open>Array.prototype.filter\<close> with a callback that may throw: the first exception ends
  the scan.\<close>

fun filter_js :: "('a \<Rightarrow> error + bool) \<Rightarrow> 'a list \<Rightarrow> error + 'a list" where
  "filter_js f [] = Inr []"
| "filter_js f (x # xs) =
     (case f x of
        Inl e \<Rightarrow> Inl e
      | Inr b \<Rightarrow> (case filter_js f xs of
                    Inl e \<Rightarrow> Inl e
                  | Inr ys \<Rightarrow> Inr (if b then x # ys else ys)))"

subsection \<open>Slice, ByIndex, ByID\<close>

definition Slice :: "listing list \<Rightarrow> int \<Rightarrow> listing list" where
  "Slice airbnb_json n = js_slice airbnb_json 0 n"

definition limitedData :: "listing list \<Rightarrow> listing list" where
  "limitedData airbnb_json = Slice airbnb_json 20"

definition ByIndex :: "listing list \<Rightarrow> int \<Rightarrow> listing option" where
  "ByIndex airbnb_json index = js_index airbnb_json index"

definition ByID :: "listing list \<Rightarrow> string \<Rightarrow> listing option" where
  "ByID airbnb_json ident = find (\<lambda>item. strict_equals_string (get item ''id'') ident) airbnb_json"

subsection \<open>ByNamePartial\<close>

text \<open>Line 186: \<open>req.body.name.trim().toLowerCase()\<close>.\<close>

definition searchName :: "string \<Rightarrow> string" where
  "searchName name = toLowerCase (trim name)"

text \<open>The callback of line 190, \<open>item.NAME && item.NAME.toLowerCase().includes(searchName)\<close>:
  a falsy \<open>NAME\<close> is the (falsy) result; a truthy value that is not a string has no
  method \<open>toLowerCase\<close>, and the call throws a TypeError.\<close>

definition name_match :: "string \<Rightarrow> listing \<Rightarrow> error + bool" where
  "name_match search item =
     (if \<not> truthy (get item ''NAME'') then Inr False
      else case get item ''NAME'' of
             JStr s \<Rightarrow> Inr (str_includes (toLowerCase s) search)
           | _ \<Rightarrow> Inl TypeError)"

definition matchedProperties :: "listing list \<Rightarrow> string \<Rightarrow> error + listing list" where
  "matchedProperties airbnb_json search = filter_js (name_match search) airbnb_json"

definition ByNamePartial :: "listing list \<Rightarrow> string \<Rightarrow> error + listing list" where
  "ByNamePartial airbnb_json name = matchedProperties airbnb_json (searchName name)"

subsection \<open>ByPriceRange\<close>

text \<open>Line 269: \<open>parseFloat(item.price.replace("$", "").trim())\<close> on a string.\<close>

definition price_number :: "string \<Rightarrow> jsnum" where
  "price_number s = parseFloat (trim (replace_first s ''$'' []))"

text \<open>The callback of lines 267-271. Reading \<open>replace\<close> from \<open>undefined\<close> or \<open>null\<close>
  throws a TypeError, and so does calling it on a value that is not a string.\<close>

definition price_match :: "jsnum \<Rightarrow> jsnum \<Rightarrow> listing \<Rightarrow> error + bool" where
  "price_match min' max' item =
     (case get item ''price'' of
        JStr s \<Rightarrow> (let p = price_number s in Inr (num_ge p min' \<and> num_le p max'))
      | _ \<Rightarrow> Inl TypeError)"

definition filteredListings :: "listing list \<Rightarrow> jsnum \<Rightarrow> jsnum \<Rightarrow> error + listing list" where
  "filteredListings airbnb_json min' max' = filter_js (price_match min' max') airbnb_json"

definition ByPriceRange :: "listing list \<Rightarrow> jsnum \<Rightarrow> jsnum \<Rightarrow> error + listing list" where
  "ByPriceRange airbnb_json min' max' = filteredListings airbnb_json min' max'"

section \<open>Validation chains\<close>

text \<open>
  The chains of express-validator run their validators and sanitizers in the order they
  are written, without stopping at a failure; every failed validator adds one error with
  the message of the \<open>withMessage\<close> that follows it. A field that the form does not have is
  validated as the empty string. Of an error, the name of the field and the message are
  kept.
\<close>

record validation_error =
  path :: string
  msg :: string

definition field_string :: "string option \<Rightarrow> string" where
  "field_string v = (case v of None \<Rightarrow> [] | Some s \<Rightarrow> s)"

definition isEmpty :: "string \<Rightarrow> bool" where
  "isEmpty s = (length s = 0)"

text \<open>\<open>isNumeric\<close> tests the whole string against \<open>^[+-]?([0-9]*[.])?[0-9]+$\<close>.\<close>

definition isNumeric :: "string \<Rightarrow> bool" where
  "isNumeric s =
     (let u = (case s of [] \<Rightarrow> s | c # r \<Rightarrow> if c = CHR ''+'' \<or> c = CHR ''-'' then r else s);
          a = takeWhile is_digit u;
          b = dropWhile is_digit u
      in case b of
           [] \<Rightarrow> a \<noteq> []
         | c # d \<Rightarrow> c = CHR ''.'' \<and> d \<noteq> [] \<and> list_all is_digit d)"

text \<open>\<open>escape\<close> replaces the characters \<open>& " ' < > / \ `\<close> by HTML entities.\<close>

definition escape_char :: "char \<Rightarrow> string" where
  "escape_char c =
     (let n = code_unit c
      in if n = 38 then ''&amp;''
         else if n = 34 then ''&quot;''
         else if n = 39 then ''&#x27;''
         else if n = 60 then ''&lt;''
         else if n = 62 then ''&gt;''
         else if n = 47 then ''&#x2F;''
         else if n = 92 then ''&#x5C;''
         else if n = 96 then ''&#96;''
         else [c])"

definition escape :: "string \<Rightarrow> string" where
  "escape s = concat (map escape_char s)"

text \<open>The value the handler finds in \<open>req.body\<close> after \<open>.trim().escape()\<close>.\<close>

definition sanitized :: "string option \<Rightarrow> string" where
  "sanitized v = escape (trim (field_string v))"

definition required_error :: "string \<Rightarrow> string \<Rightarrow> string \<Rightarrow> validation_error list" where
  "required_error field message s =
     (if isEmpty s then [\<lparr>path = field, msg = message\<rparr>] else [])"

definition numeric_error :: "string \<Rightarrow> string \<Rightarrow> string \<Rightarrow> validation_error list" where
  "numeric_error field message s =
     (if isNumeric s then [] else [\<lparr>path = field, msg = message\<rparr>])"

text \<open>Lines 123-129, 169-173 and 237-250.\<close>

definition property_id_errors :: "string option \<Rightarrow> validation_error list" where
  "property_id_errors property_id =
     required_error ''property_id'' ''Property ID is required'' (field_string property_id) @
     numeric_error ''property_id'' ''Property ID must be a number'' (field_string property_id)"

definition name_errors :: "string option \<Rightarrow> validation_error list" where
  "name_errors name = required_error ''name'' ''Property name is required'' (field_string name)"

definition price_errors :: "string option \<Rightarrow> string option \<Rightarrow> validation_error list" where
  "price_errors minPrice maxPrice =
     required_error ''minPrice'' ''Minimum price is required'' (field_string minPrice) @
     numeric_error ''minPrice'' ''Minimum price must be a number'' (field_string minPrice) @
     required_error ''maxPrice'' ''Maximum price is required'' (field_string maxPrice) @
     numeric_error ''maxPrice'' ''Maximum price must be a number'' (field_string maxPrice)"

section \<open>Route handlers\<close>

text \<open>
  \<open>res.render(view, data)\<close> is the response: the name of the view and the properties of
  the data object, in the order of the object literal. A template literal is kept as
  its pieces, so that a number in it needs no conversion to a string.
\<close>

datatype tpart = Str string | Num jsnum

datatype pval =
    Text "tpart list"
  | Record "listing option"
  | Listings "listing list"
  | Errors "validation_error list"

datatype response = Render string "(string \<times> pval) list"

text \<open>Lines 92-101.\<close>

definition get_allData :: "listing list \<Rightarrow> error + response" where
  "get_allData airbnb_json =
     Inr (Render ''allData''
       [(''title'', Text [Str ''First 20 Airbnb Listings'']),
        (''listings'', Listings (limitedData airbnb_json))])"

text \<open>Lines 109-112.\<close>

definition get_allData_invoiceID :: "listing list \<Rightarrow> int \<Rightarrow> error + response" where
  "get_allData_invoiceID airbnb_json index =
     Inr (Render ''id_search_result''
       [(''title'', Text [Str ''Property Detail'']),
        (''record'', Record (ByIndex airbnb_json index))])"

text \<open>Lines 131-155. An element of the array is an object and therefore truthy, so
  \<open>!record\<close> holds exactly when \<open>find\<close> returned \<open>undefined\<close>.\<close>

definition post_search_invoiceID :: "listing list \<Rightarrow> string option \<Rightarrow> error + response" where
  "post_search_invoiceID airbnb_json property_id =
     (let errors = property_id_errors property_id
      in if errors \<noteq> [] then
           Inr (Render ''search_id_form''
             [(''title'', Text [Str ''Search by Invoice ID'']), (''errors'', Errors errors)])
         else
           (case ByID airbnb_json (sanitized property_id) of
              None \<Rightarrow>
                Inr (Render ''id_search_result''
                  [(''title'', Text [Str ''Search Result'']),
                   (''message'', Text [Str ''No property found with that ID''])])
            | Some r \<Rightarrow>
                Inr (Render ''id_search_result''
                  [(''title'', Text [Str ''Search Result'']), (''record'', Record (Some r))])))"

text \<open>Lines 175-207.\<close>

definition post_search_name :: "listing list \<Rightarrow> string option \<Rightarrow> error + response" where
  "post_search_name airbnb_json name =
     (let errors = name_errors name
      in if errors \<noteq> [] then
           Inr (Render ''search_name_form''
             [(''title'', Text [Str ''Search by Property Name'']), (''errors'', Errors errors)])
         else
           (case ByNamePartial airbnb_json (sanitized name) of
              Inl e \<Rightarrow> Inl e
            | Inr matched \<Rightarrow>
                if length matched = 0 then
                  Inr (Render ''search_name_result''
                    [(''title'', Text [Str ''Search Result'']),
                     (''message'', Text [Str ''No properties found containing '',
                        Str [CHR 0x22], Str (sanitized name), Str [CHR 0x22]])])
                else
                  Inr (Render ''search_name_result''
                    [(''title'', Text [Str ''Search Results'']),
                     (''matchedProperties'', Listings matched),
                     (''query'', Text [Str (sanitized name)])])))"

text \<open>Lines 252-285.\<close>

definition post_viewData_price ::
  "listing list \<Rightarrow> string option \<Rightarrow> string option \<Rightarrow> error + response" where
  "post_viewData_price airbnb_json minPrice maxPrice =
     (let errors = price_errors minPrice maxPrice
      in if errors \<noteq> [] then
           Inr (Render ''price_form''
             [(''title'', Text [Str ''Search by Price Range'']), (''errors'', Errors errors)])
         else
           (let min' = parseFloat (sanitized minPrice);
                max' = parseFloat (sanitized maxPrice)
            in case ByPriceRange airbnb_json min' max' of
                 Inl e \<Rightarrow> Inl e
               | Inr found \<Rightarrow>
                   if length found = 0 then
                     Inr (Render ''price_result''
                       [(''title'', Text [Str ''Search Result'']),
                        (''message'', Text [Str ''No listings found between $'', Num min',
                           Str '' and $'', Num max'])])
                   else
                     Inr (Render ''price_result''
                       [(''title'', Text [Str ''Listings between $'', Num min',
                           Str '' and $'', Num max']),
                        (''listings'', Listings found)])))"

text \<open>
  The server: \<open>airbnb_json\<close> is the only state, and no handler assigns to it or changes
  the array (\<open>slice\<close>, \<open>find\<close> and \<open>filter\<close> build new arrays), so each request hands the
  array on as it found it.
\<close>

datatype request =
    GET_allData
  | GET_allData_invoiceID int
  | POST_search_invoiceID "string option"
  | POST_search_name "string option"
  | POST_viewData_price "string option" "string option"

fun handle :: "listing list \<Rightarrow> request \<Rightarrow> (error + response) \<times> listing list" where
  "handle airbnb_json GET_allData = (get_allData airbnb_json, airbnb_json)"
| "handle airbnb_json (GET_allData_invoiceID index) =
     (get_allData_invoiceID airbnb_json index, airbnb_json)"
| "handle airbnb_json (POST_search_invoiceID property_id) =
     (post_search_invoiceID airbnb_json property_id, airbnb_json)"
| "handle airbnb_json (POST_search_name name) =
     (post_search_name airbnb_json name, airbnb_json)"
| "handle airbnb_json (POST_viewData_price minPrice maxPrice) =
     (post_viewData_price airbnb_json minPrice maxPrice, airbnb_json)"

fun serve :: "listing list \<Rightarrow> request list \<Rightarrow> (error + response) list" where
  "serve airbnb_json [] = []"
| "serve airbnb_json (r # rs) =
     (case handle airbnb_json r of (out, airbnb_json') \<Rightarrow> out # serve airbnb_json' rs)"

section \<open>Example data\<close>

text \<open>The two-record dataset of the specification's concrete scenario, as it is written
  there: the name is stored under the key \<open>name\<close>.\<close>

definition stated_cozy_loft :: listing where
  "stated_cozy_loft =
     [(''id'', JStr ''1''), (''name'', JStr ''Cozy Loft''), (''price'', JStr ''$100.00'')]"

definition stated_sunny_flat :: listing where
  "stated_sunny_flat =
     [(''id'', JStr ''2''), (''name'', JStr ''Sunny Flat''), (''price'', JStr ''$250.00'')]"

definition stated_dataset :: "listing list" where
  "stated_dataset = [stated_cozy_loft, stated_sunny_flat]"

text \<open>The same two records with the name under the key \<open>NAME\<close>, the key that the
  source reads.\<close>

definition cozy_loft :: listing where
  "cozy_loft =
     [(''id'', JStr ''1''), (''NAME'', JStr ''Cozy Loft''), (''price'', JStr ''$100.00'')]"

definition sunny_flat :: listing where
  "sunny_flat =
     [(''id'', JStr ''2''), (''NAME'', JStr ''Sunny Flat''), (''price'', JStr ''$250.00'')]"

definition example_dataset :: "listing list" where
  "example_dataset = [cozy_loft, sunny_flat]"

text \<open>A listing whose \<open>id\<close> is the JSON number 7, not the string \<open>"7"\<close>.\<close>

definition numbered :: listing where
  "numbered =
     [(''id'', JNum (Fin 7)), (''NAME'', JStr ''Seventh''), (''price'', JStr ''$70.00'')]"

text \<open>A listing without a \<open>NAME\<close> and one whose \<open>NAME\<close> is the empty string.\<close>

definition unnamed :: listing where
  "unnamed = [(''id'', JStr ''3''), (''price'', JStr ''$30.00'')]"

definition empty_name :: listing where
  "empty_name = [(''id'', JStr ''4''), (''NAME'', JStr []), (''price'', JStr ''$40.00'')]"

text \<open>Listings with a price whose \<open>$\<close> is not in front, with no price at all, and
  with a price that is not a number.\<close>

definition refund :: listing where
  "refund = [(''id'', JStr ''5''), (''NAME'', JStr ''Refund''), (''price'', JStr ''-$5.00'')]"

definition cabin :: listing where
  "cabin = [(''id'', JStr ''9''), (''NAME'', JStr ''Cabin''), (''price'', JStr ''1$50'')]"

text \<open>A listing whose \<open>NAME\<close> is the JSON number 5.\<close>

definition name_five :: listing where
  "name_five = [(''id'', JStr ''10''), (''NAME'', JNum (Fin 5)), (''price'', JStr ''$50.00'')]"

definition no_price :: listing where
  "no_price = [(''id'', JStr ''6''), (''NAME'', JStr ''Attic'')]"

definition on_request :: listing where
  "on_request =
     [(''id'', JStr ''8''), (''NAME'', JStr ''Villa''), (''price'', JStr ''on request'')]"

section \<open>The vocabulary of the specification\<close>

text \<open>Partial match (glossary): case-insensitive substring containment, with case
  folding applied to both sides.\<close>

definition contains_ci :: "string \<Rightarrow> string \<Rightarrow> bool" where
  "contains_ci s q = str_includes (toLowerCase s) (toLowerCase q)"

text \<open>The listing has a name, not empty, that contains the query case-insensitively.\<close>

definition name_contains :: "string \<Rightarrow> listing \<Rightarrow> bool" where
  "name_contains q item = (case get item ''NAME'' of JStr s \<Rightarrow> s \<noteq> [] \<and> contains_ci s q | _ \<Rightarrow> False)"

definition has_name :: "listing \<Rightarrow> bool" where
  "has_name item = (case get item ''NAME'' of JStr s \<Rightarrow> s \<noteq> [] | _ \<Rightarrow> False)"

text \<open>The data model: \<open>name\<close> is a string and may be absent or empty. (Any falsy value
  counts as absent, as it does for the source.)\<close>

definition name_typed :: "listing \<Rightarrow> bool" where
  "name_typed item = (is_string (get item ''NAME'') \<or> \<not> truthy (get item ''NAME''))"

text \<open>The data model: \<open>price\<close> is a string.\<close>

definition price_typed :: "listing \<Rightarrow> bool" where
  "price_typed item = is_string (get item ''price'')"

text \<open>The price of the listing, read as the source reads it, lies between the bounds,
  both included.\<close>

definition price_within :: "jsnum \<Rightarrow> jsnum \<Rightarrow> listing \<Rightarrow> bool" where
  "price_within lo hi item =
     (case get item ''price'' of
        JStr s \<Rightarrow> num_le lo (price_number s) \<and> num_le (price_number s) hi
      | _ \<Rightarrow> False)"

text \<open>The reading of the price in the words of the specification: surrounding white
  space and a currency symbol at the front are stripped, then the number is parsed.\<close>

definition strip_leading_currency :: "string \<Rightarrow> string" where
  "strip_leading_currency s =
     (let t = trim s
      in trim (case t of [] \<Rightarrow> [] | c # r \<Rightarrow> if c = CHR ''$'' then r else t))"

definition stated_price :: "string \<Rightarrow> jsnum" where
  "stated_price s = parseFloat (strip_leading_currency s)"

definition stated_price_within :: "jsnum \<Rightarrow> jsnum \<Rightarrow> listing \<Rightarrow> bool" where
  "stated_price_within lo hi item =
     (case get item ''price'' of
        JStr s \<Rightarrow> num_le lo (stated_price s) \<and> num_le (stated_price s) hi
      | _ \<Rightarrow> False)"

section \<open>Properties\<close>

subsection \<open>Auxiliary facts\<close>

lemmas listing_defs = get_def example_dataset_def cozy_loft_def sunny_flat_def numbered_def
  unnamed_def empty_name_def refund_def cabin_def no_price_def on_request_def name_five_def

lemmas string_defs = code_unit_def is_space_def is_digit_def trim_def toLowerCase_def
  lower_char_def char_of_def bit_Suc_0_iff

lemmas number_defs = parseFloat_def decimal_value_def round_binary64_def round_half_even_def
  pow2_def digits_val_def digit_val_def exponent_part_def bit_length.simps Let_def

lemma strict_equals_string_iff: "strict_equals_string v s \<longleftrightarrow> v = JStr s"
  by (cases v) auto

lemma filter_js_total:
  "(\<And>x. x \<in> set xs \<Longrightarrow> f x = Inr (g x)) \<Longrightarrow> filter_js f xs = Inr (filter g xs)"
  by (induction xs) auto

lemma filter_js_throws:
  "x \<in> set xs \<Longrightarrow> f x = Inl TypeError \<Longrightarrow> filter_js f xs = Inl TypeError"
proof (induction xs)
  case Nil
  then show ?case by simp
next
  case (Cons y ys)
  show ?case
  proof (cases "f y")
    case (Inl e)
    then show ?thesis by (cases e) simp
  next
    case (Inr b)
    with Cons have "filter_js f ys = Inl TypeError" by auto
    with Inr show ?thesis by simp
  qed
qed

lemma js_slice_take: "js_slice xs 0 (int n) = take n xs"
  by (cases "n \<le> length xs") (simp_all add: js_slice_def relative_index_def min_def)

lemma handle_keeps_dataset: "snd (handle airbnb_json r) = airbnb_json"
  by (cases r) simp_all

lemma serve_append:
  "serve airbnb_json (rs @ rs') = serve airbnb_json rs @ serve airbnb_json rs'"
proof (induction rs)
  case Nil
  show ?case by simp
next
  case (Cons r rs)
  obtain out ds' where h: "handle airbnb_json r = (out, ds')"
    by (cases "handle airbnb_json r")
  with handle_keeps_dataset [of airbnb_json r] have "ds' = airbnb_json" by simp
  with h Cons show ?case by simp
qed

lemma price_100: "price_number ''$100.00'' = Fin 100"
  by (simp add: price_number_def string_defs number_defs)

lemma price_250: "price_number ''$250.00'' = Fin 250"
  by (simp add: price_number_def string_defs number_defs)

lemma lower_cozy: "toLowerCase ''Cozy Loft'' = ''cozy loft''"
  by (simp add: string_defs)

lemma lower_sunny: "toLowerCase ''Sunny Flat'' = ''sunny flat''"
  by (simp add: string_defs)

lemma starts_with_iff: "starts_with s p \<longleftrightarrow> (\<exists>b. s = p @ b)"
  by (induction s p rule: starts_with.induct) auto

text \<open>\<open>str_includes\<close> is substring containment.\<close>

lemma str_includes_iff: "str_includes s sub \<longleftrightarrow> (\<exists>a b. s = a @ sub @ b)"
proof (induction s)
  case Nil
  show ?case by simp
next
  case (Cons c s)
  show ?case
  proof
    assume "str_includes (c # s) sub"
    then consider "starts_with (c # s) sub" | "str_includes s sub" by auto
    then show "\<exists>a b. c # s = a @ sub @ b"
    proof cases
      case 1
      then obtain b where "c # s = sub @ b" by (auto simp add: starts_with_iff)
      then have "c # s = [] @ sub @ b" by simp
      then show ?thesis by blast
    next
      case 2
      with Cons obtain a b where "s = a @ sub @ b" by blast
      then have "c # s = (c # a) @ sub @ b" by simp
      then show ?thesis by blast
    qed
  next
    assume "\<exists>a b. c # s = a @ sub @ b"
    then obtain a b where ab: "c # s = a @ sub @ b" by blast
    show "str_includes (c # s) sub"
    proof (cases a)
      case Nil
      with ab have "starts_with (c # s) sub" by (auto simp add: starts_with_iff)
      then show ?thesis by simp
    next
      case (Cons x a')
      with ab have "s = a' @ sub @ b" by simp
      with Cons.IH have "str_includes s sub" by blast
      then show ?thesis by simp
    qed
  qed
qed

lemma str_includes_empty: "str_includes s [] = True"
  by (cases s) simp_all

lemma trim_all_space: "\<forall>c \<in> set s. is_space c \<Longrightarrow> trim s = []"
proof -
  assume "\<forall>c \<in> set s. is_space c"
  then have d: "dropWhile is_space s = []"
    by (induction s) simp_all
  show ?thesis
    unfolding trim_def d by simp
qed

lemma name_match_typed:
  "name_typed item \<Longrightarrow> name_match (searchName q) item = Inr (name_contains (trim q) item)"
  by (cases "get item ''NAME''")
    (auto simp add: name_typed_def name_match_def name_contains_def contains_ci_def searchName_def)

lemma ByNamePartial_filter:
  "\<forall>item \<in> set airbnb_json. name_typed item \<Longrightarrow>
   ByNamePartial airbnb_json q = Inr (filter (name_contains (trim q)) airbnb_json)"
  unfolding ByNamePartial_def matchedProperties_def
  by (intro filter_js_total name_match_typed) simp

text \<open>A truthy \<open>NAME\<close> that is not a string makes the name search throw.\<close>

lemma ByNamePartial_throws:
  "item \<in> set airbnb_json \<Longrightarrow> \<not> name_typed item \<Longrightarrow> ByNamePartial airbnb_json q = Inl TypeError"
  unfolding ByNamePartial_def matchedProperties_def
  by (rule filter_js_throws [of item], assumption, cases "get item ''NAME''")
    (simp_all add: name_typed_def name_match_def)

lemma has_name_truthy: "name_typed item \<Longrightarrow> name_contains [] item = has_name item"
  by (cases "get item ''NAME''")
    (simp_all add: name_contains_def has_name_def contains_ci_def toLowerCase_def
      str_includes_empty)

lemma price_match_typed:
  "price_typed item \<Longrightarrow> price_match lo hi item = Inr (price_within lo hi item)"
  by (cases "get item ''price''")
    (simp_all add: price_typed_def price_match_def price_within_def num_ge_def Let_def)

lemma ByPriceRange_filter:
  "\<forall>item \<in> set airbnb_json. price_typed item \<Longrightarrow>
   ByPriceRange airbnb_json lo hi = Inr (filter (price_within lo hi) airbnb_json)"
  unfolding ByPriceRange_def filteredListings_def
  by (intro filter_js_total price_match_typed) simp

text \<open>A \<open>price\<close> that is not a string makes the price filter throw, whatever the bounds.\<close>

lemma ByPriceRange_throws:
  "item \<in> set airbnb_json \<Longrightarrow> \<not> price_typed item \<Longrightarrow>
   ByPriceRange airbnb_json lo hi = Inl TypeError"
  unfolding ByPriceRange_def filteredListings_def
  by (rule filter_js_throws [of item], assumption, cases "get item ''price''")
    (simp_all add: price_typed_def price_match_def)

lemma num_le_not_NaN: "num_le a b \<Longrightarrow> a \<noteq> NaN \<and> b \<noteq> NaN"
  by (cases a; cases b) simp_all

lemma reversed_bounds: "num_gt lo hi \<Longrightarrow> \<not> (num_le lo p \<and> num_le p hi)"
  by (cases lo; cases p; cases hi) simp_all

lemma price_within_reversed: "num_gt lo hi \<Longrightarrow> \<not> price_within lo hi item"
  using reversed_bounds [of lo hi]
  by (cases "get item ''price''") (simp_all add: price_within_def)

lemma isEmpty_not_numeric: "isEmpty s \<Longrightarrow> \<not> isNumeric s"
  by (simp add: isEmpty_def isNumeric_def)

lemma trim_no_space: "\<forall>c \<in> set s. \<not> is_space c \<Longrightarrow> trim s = s"
proof -
  assume a: "\<forall>c \<in> set s. \<not> is_space c"
  then have d: "dropWhile is_space s = s"
    by (cases s) simp_all
  from a have "dropWhile is_space (rev s) = rev s"
    by (cases "rev s") (simp, metis dropWhile.simps(2) list.set_intros(1) set_rev)
  with d show ?thesis
    by (simp add: trim_def)
qed

lemma escape_unchanged: "\<forall>c \<in> set s. escape_char c = [c] \<Longrightarrow> escape s = s"
  by (induction s) (simp_all add: escape_def)

lemma isNumeric_chars:
  assumes "isNumeric s"
  shows "\<forall>c \<in> set s. is_digit c \<or> c = CHR ''+'' \<or> c = CHR ''-'' \<or> c = CHR ''.''"
proof -
  define u where "u = (case s of [] \<Rightarrow> s | c # r \<Rightarrow> if c = CHR ''+'' \<or> c = CHR ''-'' then r else s)"
  have su: "set s \<subseteq> set u \<union> {CHR ''+'', CHR ''-''}"
    by (cases s) (auto simp add: u_def)
  have split: "u = takeWhile is_digit u @ dropWhile is_digit u"
    by simp
  have tw: "\<forall>c \<in> set (takeWhile is_digit u). is_digit c"
    by (auto dest: set_takeWhileD)
  from assms have h: "case dropWhile is_digit u of [] \<Rightarrow> takeWhile is_digit u \<noteq> []
      | c # d \<Rightarrow> c = CHR ''.'' \<and> d \<noteq> [] \<and> list_all is_digit d"
    unfolding isNumeric_def u_def Let_def .
  have dw: "\<forall>c \<in> set (dropWhile is_digit u). is_digit c \<or> c = CHR ''.''"
  proof (cases "dropWhile is_digit u")
    case Nil
    show ?thesis unfolding Nil by simp
  next
    case (Cons c d)
    from h have "c = CHR ''.'' \<and> list_all is_digit d"
      unfolding Cons by simp
    then show ?thesis
      unfolding Cons by (auto simp add: list_all_iff)
  qed
  have "\<forall>c \<in> set u. is_digit c \<or> c = CHR ''.''"
  proof
    fix c assume "c \<in> set u"
    with split have "c \<in> set (takeWhile is_digit u) \<or> c \<in> set (dropWhile is_digit u)"
      by (metis Un_iff set_append)
    with tw dw show "is_digit c \<or> c = CHR ''.''" by blast
  qed
  with su show ?thesis by blast
qed

lemma numeric_char_plain:
  "is_digit c \<or> c = CHR ''+'' \<or> c = CHR ''-'' \<or> c = CHR ''.'' \<Longrightarrow>
   \<not> is_space c \<and> escape_char c = [c]"
  by (auto simp add: is_digit_def is_space_def escape_char_def code_unit_def)

lemma sanitized_numeric: "isNumeric s \<Longrightarrow> sanitized (Some s) = s"
proof -
  assume "isNumeric s"
  then have "\<forall>c \<in> set s. \<not> is_space c \<and> escape_char c = [c]"
    using isNumeric_chars numeric_char_plain by blast
  then show ?thesis
    by (simp add: sanitized_def field_string_def trim_no_space escape_unchanged)
qed

lemma post_search_invoiceID_numeric:
  assumes "isNumeric q"
  shows "post_search_invoiceID airbnb_json (Some q) =
     (case ByID airbnb_json q of
        None \<Rightarrow>
          Inr (Render ''id_search_result''
            [(''title'', Text [Str ''Search Result'']),
             (''message'', Text [Str ''No property found with that ID''])])
      | Some r \<Rightarrow>
          Inr (Render ''id_search_result''
            [(''title'', Text [Str ''Search Result'']), (''record'', Record (Some r))]))"
proof -
  from assms have "\<not> isEmpty q"
    using isEmpty_not_numeric by blast
  with assms have "property_id_errors (Some q) = []"
    by (simp add: property_id_errors_def required_error_def numeric_error_def field_string_def)
  with sanitized_numeric [OF assms] show ?thesis
    by (simp add: post_search_invoiceID_def)
qed

lemma ByIndex_in_range:
  "0 \<le> i \<Longrightarrow> i < int (length airbnb_json) \<Longrightarrow>
   ByIndex airbnb_json i = Some (airbnb_json ! nat i)"
  by (simp add: ByIndex_def js_index_def)

lemma ByIndex_out_of_range:
  "i < 0 \<or> int (length airbnb_json) \<le> i \<Longrightarrow> ByIndex airbnb_json i = None"
  by (auto simp add: ByIndex_def js_index_def)

text \<open>Evaluations used below.\<close>

lemma parse_0: "parseFloat ''0'' = Fin 0"
  by (simp add: string_defs number_defs)

lemma parse_100: "parseFloat ''100'' = Fin 100"
  by (simp add: string_defs number_defs)

lemma parse_500: "parseFloat ''500'' = Fin 500"
  by (simp add: string_defs number_defs)

lemma parse_tenth: "parseFloat ''0.1'' = Fin (3602879701896397 / 36028797018963968)"
  by (simp add: string_defs number_defs)

lemma sanitized_0: "sanitized (Some ''0'') = ''0''"
  by (simp add: sanitized_def field_string_def escape_def escape_char_def string_defs)

lemma sanitized_100: "sanitized (Some ''100'') = ''100''"
  by (simp add: sanitized_def field_string_def escape_def escape_char_def string_defs)

lemma sanitized_500: "sanitized (Some ''500'') = ''500''"
  by (simp add: sanitized_def field_string_def escape_def escape_char_def string_defs)

lemma price_errors_0_500: "price_errors (Some ''0'') (Some ''500'') = []"
  by (simp add: price_errors_def required_error_def numeric_error_def isEmpty_def
      isNumeric_def field_string_def string_defs)

lemma price_errors_500_100: "price_errors (Some ''500'') (Some ''100'') = []"
  by (simp add: price_errors_def required_error_def numeric_error_def isEmpty_def
      isNumeric_def field_string_def string_defs)

lemma price_refund: "price_number ''-$5.00'' = Fin (- 5)"
  by (simp add: price_number_def string_defs number_defs)

lemma price_on_request: "price_number ''on request'' = NaN"
  by (simp add: price_number_def string_defs number_defs)

lemma stated_refund: "stated_price ''-$5.00'' = NaN"
  by (simp add: stated_price_def strip_leading_currency_def string_defs number_defs)

lemma price_cabin: "price_number ''1$50'' = Fin 150"
  by (simp add: price_number_def string_defs number_defs)

lemma stated_cabin: "stated_price ''1$50'' = Fin 1"
  by (simp add: stated_price_def strip_leading_currency_def string_defs number_defs)

subsection \<open>Slice and the preview\<close>

text \<open>
  Claim C7. For every count \<open>n\<close>, \<open>Slice(n)\<close> is the list of the first \<open>n\<close> listings in
  their original order, so it has \<open>min(n, size)\<close> elements and is not an error when \<open>n\<close>
  exceeds the size of the dataset. The preview handler uses \<open>n = 20\<close>. No request
  changes the dataset, so a preview request repeated after any sequence of requests
  gives the same response again.
\<close>

theorem Slice_first_n:
  "Slice airbnb_json (int n) = take n airbnb_json
   \<and> length (Slice airbnb_json (int n)) = min n (length airbnb_json)
   \<and> limitedData airbnb_json = Slice airbnb_json (int 20)
   \<and> get_allData airbnb_json =
       Inr (Render ''allData''
         [(''title'', Text [Str ''First 20 Airbnb Listings'']),
          (''listings'', Listings (take 20 airbnb_json))])
   \<and> serve airbnb_json (rs @ [GET_allData, GET_allData]) =
       serve airbnb_json rs @ [get_allData airbnb_json, get_allData airbnb_json]"
proof -
  have a: "Slice airbnb_json (int n) = take n airbnb_json" for n
    by (simp add: Slice_def js_slice_take)
  have b: "limitedData airbnb_json = Slice airbnb_json (int 20)"
    by (simp add: limitedData_def)
  have c: "serve airbnb_json [GET_allData, GET_allData] =
      [get_allData airbnb_json, get_allData airbnb_json]"
    by simp
  show ?thesis
    using a [of n] a [of 20] b c
    by (simp add: get_allData_def serve_append min.commute del: serve.simps)
qed

subsection \<open>Lookup by identifier\<close>

text \<open>
  Claim C5. For every query string, \<open>ByID\<close> returns the first listing in sequence order
  whose \<open>id\<close> is a string equal to the query, and the not-found marker exactly when no
  listing has such an \<open>id\<close>. Equality is strict: a listing whose \<open>id\<close> is a number is
  never returned, whatever the query string looks like. A numeric query passes the
  validation unchanged, and the route renders the record found or the message that no
  property has that ID.
\<close>

theorem ByID_first_exact_match:
  "(ByID airbnb_json q = None \<longleftrightarrow> (\<forall>item \<in> set airbnb_json. get item ''id'' \<noteq> JStr q))
   \<and> (\<forall>r. ByID airbnb_json q = Some r \<longleftrightarrow>
         (\<exists>i < length airbnb_json. airbnb_json ! i = r \<and> get r ''id'' = JStr q
            \<and> (\<forall>j < i. get (airbnb_json ! j) ''id'' \<noteq> JStr q)))
   \<and> (\<forall>r n. get r ''id'' = JNum n \<longrightarrow> ByID airbnb_json q \<noteq> Some r)
   \<and> (isNumeric q \<longrightarrow>
        post_search_invoiceID airbnb_json (Some q) =
          (case ByID airbnb_json q of
             None \<Rightarrow>
               Inr (Render ''id_search_result''
                 [(''title'', Text [Str ''Search Result'']),
                  (''message'', Text [Str ''No property found with that ID''])])
           | Some r \<Rightarrow>
               Inr (Render ''id_search_result''
                 [(''title'', Text [Str ''Search Result'']), (''record'', Record (Some r))])))"
proof -
  have none: "ByID airbnb_json q = None \<longleftrightarrow>
      (\<forall>item \<in> set airbnb_json. get item ''id'' \<noteq> JStr q)"
    by (auto simp add: ByID_def find_None_iff strict_equals_string_iff)
  have some: "ByID airbnb_json q = Some r \<longleftrightarrow>
         (\<exists>i < length airbnb_json. airbnb_json ! i = r \<and> get r ''id'' = JStr q
            \<and> (\<forall>j < i. get (airbnb_json ! j) ''id'' \<noteq> JStr q))" for r
    unfolding ByID_def find_Some_iff strict_equals_string_iff by auto
  have num: "get r ''id'' = JNum n \<Longrightarrow> ByID airbnb_json q \<noteq> Some r" for r n
    using some [of r] by auto
  from none some num post_search_invoiceID_numeric [of q airbnb_json] show ?thesis
    by blast
qed

theorem ByID_first_exact_match_witness:
  "ByID [numbered, cozy_loft, sunny_flat, sunny_flat] ''2'' = Some sunny_flat
   \<and> ByID [numbered, cozy_loft, sunny_flat, sunny_flat] ''7'' = None
   \<and> ByID [numbered] ''7'' \<noteq> Some numbered
   \<and> isNumeric ''7''
   \<and> post_search_invoiceID [numbered, cozy_loft, sunny_flat, sunny_flat] (Some ''7'') =
       Inr (Render ''id_search_result''
         [(''title'', Text [Str ''Search Result'']),
          (''message'', Text [Str ''No property found with that ID''])])"
proof -
  let ?ds = "[numbered, cozy_loft, sunny_flat, sunny_flat]"
  have "\<exists>i < length ?ds. ?ds ! i = sunny_flat \<and> get sunny_flat ''id'' = JStr ''2''
      \<and> (\<forall>j < i. get (?ds ! j) ''id'' \<noteq> JStr ''2'')"
    by (rule exI [of _ "Suc (Suc 0)"])
      (auto simp add: listing_defs less_Suc_eq)
  with ByID_first_exact_match [of ?ds "''2''"]
  have a: "ByID ?ds ''2'' = Some sunny_flat" by blast
  have "\<forall>item \<in> set ?ds. get item ''id'' \<noteq> JStr ''7''"
    by (simp add: listing_defs)
  with ByID_first_exact_match [of ?ds "''7''"]
  have b: "ByID ?ds ''7'' = None" by blast
  have "get numbered ''id'' = JNum (Fin 7)"
    by (simp add: listing_defs)
  with ByID_first_exact_match [of "[numbered]" "''7''"]
  have c: "ByID [numbered] ''7'' \<noteq> Some numbered" by blast
  have d: "isNumeric ''7''"
    by (simp add: isNumeric_def string_defs)
  with ByID_first_exact_match [of ?ds "''7''"] b
  have e: "post_search_invoiceID ?ds (Some ''7'') =
       Inr (Render ''id_search_result''
         [(''title'', Text [Str ''Search Result'']),
          (''message'', Text [Str ''No property found with that ID''])])"
    by simp
  from a b c d e show ?thesis by simp
qed

subsection \<open>The concrete scenario\<close>

text \<open>
  Claim C2, as amended. On the dataset of the two records Cozy Loft (id 1, price
  $100.00) and Sunny Flat (id 2, price $250.00), with the names under the key \<open>NAME\<close>:
  \<open>ByID("2")\<close> is the second record, \<open>ByNamePartial("loft")\<close> is the first record alone,
  \<open>ByPriceRange(100, 200)\<close> is the first record alone, \<open>ByPriceRange(0, 500)\<close> is both
  records in their order, and \<open>ByIndex(5)\<close> is the not-found marker.
\<close>

theorem example_scenario:
  "ByID example_dataset ''2'' = Some sunny_flat
   \<and> ByNamePartial example_dataset ''loft'' = Inr [cozy_loft]
   \<and> ByPriceRange example_dataset (Fin 100) (Fin 200) = Inr [cozy_loft]
   \<and> ByPriceRange example_dataset (Fin 0) (Fin 500) = Inr [cozy_loft, sunny_flat]
   \<and> ByIndex example_dataset 5 = None"
proof -
  have search: "searchName ''loft'' = ''loft''"
    by (simp add: searchName_def string_defs)
  have ident: "ByID example_dataset ''2'' = Some sunny_flat"
    by (simp add: ByID_def listing_defs)
  have name: "ByNamePartial example_dataset ''loft'' = Inr [cozy_loft]"
    by (simp add: ByNamePartial_def matchedProperties_def name_match_def search
        listing_defs lower_cozy lower_sunny)
  have p1: "ByPriceRange example_dataset (Fin 100) (Fin 200) = Inr [cozy_loft]"
    by (simp add: ByPriceRange_def filteredListings_def price_match_def num_ge_def
        listing_defs price_100 price_250)
  have p2: "ByPriceRange example_dataset (Fin 0) (Fin 500) = Inr [cozy_loft, sunny_flat]"
    by (simp add: ByPriceRange_def filteredListings_def price_match_def num_ge_def
        listing_defs price_100 price_250)
  have ix: "ByIndex example_dataset 5 = None"
    by (simp add: ByIndex_def js_index_def listing_defs)
  from ident name p1 p2 ix show ?thesis by simp
qed

text \<open>
  On the dataset as the scenario writes it, with the names under the key \<open>name\<close>, the
  source finds no \<open>NAME\<close> in either record and the name search returns nothing, not the
  first record. The other four results are those of the scenario.
\<close>

theorem example_scenario_name_key_counterexample:
  "ByNamePartial stated_dataset ''loft'' = Inr []
   \<and> ByNamePartial stated_dataset ''loft'' \<noteq> Inr [stated_cozy_loft]
   \<and> ByID stated_dataset ''2'' = Some stated_sunny_flat
   \<and> ByPriceRange stated_dataset (Fin 100) (Fin 200) = Inr [stated_cozy_loft]
   \<and> ByPriceRange stated_dataset (Fin 0) (Fin 500) = Inr [stated_cozy_loft, stated_sunny_flat]
   \<and> ByIndex stated_dataset 5 = None"
proof -
  have name: "ByNamePartial stated_dataset ''loft'' = Inr []"
    by (simp add: ByNamePartial_def matchedProperties_def name_match_def get_def
        stated_dataset_def stated_cozy_loft_def stated_sunny_flat_def)
  have ident: "ByID stated_dataset ''2'' = Some stated_sunny_flat"
    by (simp add: ByID_def get_def stated_dataset_def stated_cozy_loft_def
        stated_sunny_flat_def)
  have p1: "ByPriceRange stated_dataset (Fin 100) (Fin 200) = Inr [stated_cozy_loft]"
    by (simp add: ByPriceRange_def filteredListings_def price_match_def num_ge_def get_def
        stated_dataset_def stated_cozy_loft_def stated_sunny_flat_def price_100 price_250)
  have p2: "ByPriceRange stated_dataset (Fin 0) (Fin 500) =
      Inr [stated_cozy_loft, stated_sunny_flat]"
    by (simp add: ByPriceRange_def filteredListings_def price_match_def num_ge_def get_def
        stated_dataset_def stated_cozy_loft_def stated_sunny_flat_def price_100 price_250)
  have ix: "ByIndex stated_dataset 5 = None"
    by (simp add: ByIndex_def js_index_def stated_dataset_def)
  from name ident p1 p2 ix show ?thesis by simp
qed

subsection \<open>Lookup by position\<close>

text \<open>
  Claim C6. An index inside \<open>[0, size)\<close> gives the listing at that position and an index
  outside gives the absent value without an exception (\<open>ByIndex_in_range\<close>,
  \<open>ByIndex_out_of_range\<close>). The absent value is not surfaced as a message, though: for the
  index 5 on the two-record dataset the handler renders the result view with an
  undefined \<open>record\<close> and no \<open>message\<close>, whereas the lookup by identifier, which renders
  the same view, passes the message "No property found with that ID" when nothing is
  found.
\<close>

theorem index_out_of_range_no_message:
  "ByIndex example_dataset 5 = None
   \<and> get_allData_invoiceID example_dataset 5 =
       Inr (Render ''id_search_result''
         [(''title'', Text [Str ''Property Detail'']), (''record'', Record None)])
   \<and> ByID example_dataset ''5'' = None
   \<and> post_search_invoiceID example_dataset (Some ''5'') =
       Inr (Render ''id_search_result''
         [(''title'', Text [Str ''Search Result'']),
          (''message'', Text [Str ''No property found with that ID''])])"
proof -
  have a: "ByIndex example_dataset 5 = None"
    by (simp add: ByIndex_def js_index_def listing_defs)
  have b: "ByID example_dataset ''5'' = None"
    by (simp add: ByID_def listing_defs)
  have e: "property_id_errors (Some ''5'') = []"
    by (simp add: property_id_errors_def required_error_def numeric_error_def isEmpty_def
        isNumeric_def field_string_def string_defs)
  have v: "sanitized (Some ''5'') = ''5''"
    by (simp add: sanitized_def field_string_def escape_def escape_char_def string_defs)
  from a b e v show ?thesis
    by (simp add: get_allData_invoiceID_def post_search_invoiceID_def)
qed

subsection \<open>Search by name\<close>




text \<open>
  Claim C10, as amended. A name query that is not empty and consists of white space only
  passes the validation (\<open>notEmpty\<close> sees the untrimmed value), reaches the handler as
  the empty string, and on a dataset whose names are strings or absent \<open>ByNamePartial\<close>
  returns all listings with a non-empty name, in their order; the route renders them, or
  the no-match message when there is none.
\<close>

theorem whitespace_query_matches_all_named:
  assumes "q \<noteq> []" and "\<forall>c \<in> set q. is_space c"
    and "\<forall>item \<in> set airbnb_json. name_typed item"
  shows "name_errors (Some q) = []
    \<and> sanitized (Some q) = []
    \<and> ByNamePartial airbnb_json (sanitized (Some q)) = Inr (filter has_name airbnb_json)
    \<and> post_search_name airbnb_json (Some q) =
        (if filter has_name airbnb_json = [] then
           Inr (Render ''search_name_result''
             [(''title'', Text [Str ''Search Result'']),
              (''message'', Text [Str ''No properties found containing '',
                 Str [CHR 0x22], Str [], Str [CHR 0x22]])])
         else
           Inr (Render ''search_name_result''
             [(''title'', Text [Str ''Search Results'']),
              (''matchedProperties'', Listings (filter has_name airbnb_json)),
              (''query'', Text [Str []])]))"
proof -
  have e: "name_errors (Some q) = []"
    using assms(1) by (simp add: name_errors_def required_error_def isEmpty_def field_string_def)
  have v: "sanitized (Some q) = []"
    using assms(2) by (simp add: sanitized_def field_string_def trim_all_space escape_def)
  have "trim [] = []"
    by (simp add: trim_def)
  with ByNamePartial_filter [OF assms(3), of "[]"]
  have "ByNamePartial airbnb_json [] = Inr (filter (name_contains []) airbnb_json)"
    by simp
  moreover have "filter (name_contains []) airbnb_json = filter has_name airbnb_json"
    using assms(3) by (intro filter_cong) (simp_all add: has_name_truthy)
  ultimately have m: "ByNamePartial airbnb_json [] = Inr (filter has_name airbnb_json)"
    by simp
  from e v m show ?thesis
    by (simp add: post_search_name_def)
qed

theorem whitespace_query_matches_all_named_witness:
  "[CHR '' '', CHR 0x09, CHR '' ''] \<noteq> []
   \<and> is_space (CHR '' '') \<and> is_space (CHR 0x09)
   \<and> name_typed unnamed \<and> name_typed cozy_loft \<and> name_typed empty_name \<and> name_typed sunny_flat
   \<and> name_errors (Some [CHR '' '', CHR 0x09, CHR '' '']) = []
   \<and> post_search_name [unnamed, cozy_loft, empty_name, sunny_flat]
        (Some [CHR '' '', CHR 0x09, CHR '' '']) =
       Inr (Render ''search_name_result''
         [(''title'', Text [Str ''Search Results'']),
          (''matchedProperties'', Listings [cozy_loft, sunny_flat]),
          (''query'', Text [Str []])])"
proof -
  let ?q = "[CHR '' '', CHR 0x09, CHR '' '']"
  let ?ds = "[unnamed, cozy_loft, empty_name, sunny_flat]"
  have ne: "?q \<noteq> []"
    by simp
  have sp: "\<forall>c \<in> set ?q. is_space c"
    by (simp add: is_space_def code_unit_def)
  have typed: "\<forall>item \<in> set ?ds. name_typed item"
    by (simp add: name_typed_def listing_defs)
  have f: "filter has_name ?ds = [cozy_loft, sunny_flat]"
    by (simp add: has_name_def listing_defs)
  note w = whitespace_query_matches_all_named [OF ne sp typed, unfolded f]
  from w ne sp typed show ?thesis
    by simp
qed

text \<open>
  Without the restriction to names that are strings or absent the claim fails: on a
  dataset that holds a listing whose \<open>NAME\<close> is the number 5, the query of one space passes
  the validation and reaches the handler as the empty string, the callback calls
  \<open>toLowerCase\<close> on the number, and the search ends in a TypeError instead of returning
  the named listings.
\<close>

theorem whitespace_query_number_name_counterexample:
  "name_errors (Some '' '') = []
   \<and> sanitized (Some '' '') = []
   \<and> has_name cozy_loft
   \<and> ByNamePartial [cozy_loft, name_five] (sanitized (Some '' '')) = Inl TypeError
   \<and> post_search_name [cozy_loft, name_five] (Some '' '') = Inl TypeError"
proof -
  have e: "name_errors (Some '' '') = []"
    by (simp add: name_errors_def required_error_def isEmpty_def field_string_def)
  have v: "sanitized (Some '' '') = []"
    by (simp add: sanitized_def field_string_def escape_def string_defs)
  have n: "has_name cozy_loft"
    by (simp add: has_name_def listing_defs)
  have s: "searchName [] = []"
    by (simp add: searchName_def string_defs)
  have a: "ByNamePartial [cozy_loft, name_five] [] = Inl TypeError"
    by (simp add: ByNamePartial_def matchedProperties_def name_match_def s listing_defs
        lower_cozy)
  have b: "post_search_name [cozy_loft, name_five] (Some '' '') = Inl TypeError"
    using a by (simp add: post_search_name_def e v)
  from e v n a b show ?thesis by simp
qed

subsection \<open>Filter by price\<close>

text \<open>
  Claim C4, as amended. On a dataset whose prices are strings, for all bounds
  \<open>min <= max\<close> the result of \<open>ByPriceRange\<close> is the dataset filtered, in its order, by:
  the price field, after the first \<open>$\<close> in it (wherever it stands) and then the
  surrounding white space are removed, parses to a number \<open>p\<close> with \<open>min <= p <= max\<close>,
  both bounds included. A listing whose price does not parse never appears.
\<close>

theorem ByPriceRange_first_dollar_removed:
  assumes "\<forall>item \<in> set airbnb_json. price_typed item" and "num_le lo hi"
  shows "\<exists>result. ByPriceRange airbnb_json lo hi = Inr result
    \<and> result = filter (price_within lo hi) airbnb_json
    \<and> (\<forall>item \<in> set result. \<exists>s. get item ''price'' = JStr s \<and> price_number s \<noteq> NaN
          \<and> num_le lo (price_number s) \<and> num_le (price_number s) hi)
    \<and> (\<forall>item \<in> set airbnb_json. \<forall>s. get item ''price'' = JStr s
          \<and> num_le lo (price_number s) \<and> num_le (price_number s) hi \<longrightarrow> item \<in> set result)"
proof -
  let ?result = "filter (price_within lo hi) airbnb_json"
  have sound: "\<exists>s. get item ''price'' = JStr s \<and> price_number s \<noteq> NaN
      \<and> num_le lo (price_number s) \<and> num_le (price_number s) hi"
    if "price_within lo hi item" for item
    using that num_le_not_NaN
    by (cases "get item ''price''") (auto simp add: price_within_def)
  have complete: "price_within lo hi item"
    if "get item ''price'' = JStr s \<and> num_le lo (price_number s) \<and> num_le (price_number s) hi"
    for item s
    using that by (simp add: price_within_def)
  have "ByPriceRange airbnb_json lo hi = Inr ?result"
    using assms(1) by (rule ByPriceRange_filter)
  moreover have "\<forall>item \<in> set ?result. \<exists>s. get item ''price'' = JStr s
      \<and> price_number s \<noteq> NaN \<and> num_le lo (price_number s) \<and> num_le (price_number s) hi"
    using sound by simp
  moreover have "\<forall>item \<in> set airbnb_json. \<forall>s. get item ''price'' = JStr s
      \<and> num_le lo (price_number s) \<and> num_le (price_number s) hi \<longrightarrow> item \<in> set ?result"
    using complete by auto
  ultimately show ?thesis
    by blast
qed

theorem ByPriceRange_first_dollar_removed_witness:
  "price_typed refund \<and> price_typed cozy_loft \<and> price_typed on_request \<and> price_typed sunny_flat
   \<and> num_le (Fin (- 10)) (Fin 100)
   \<and> ByPriceRange [refund, cozy_loft, on_request, sunny_flat] (Fin (- 10)) (Fin 100) =
       Inr [refund, cozy_loft]"
proof -
  let ?ds = "[refund, cozy_loft, on_request, sunny_flat]"
  have typed: "\<forall>item \<in> set ?ds. price_typed item"
    by (simp add: price_typed_def listing_defs)
  have le: "num_le (Fin (- 10)) (Fin 100)"
    by simp
  have "filter (price_within (Fin (- 10)) (Fin 100)) ?ds = [refund, cozy_loft]"
    by (simp add: price_within_def listing_defs
        price_refund price_100 price_on_request price_250)
  with ByPriceRange_first_dollar_removed [OF typed le] typed le show ?thesis
    by auto
qed

text \<open>
  The claim as stated strips a currency symbol at the front only. The price \<open>1$50\<close> has
  none at the front and parses to 1 as it stands, so the claim leaves the listing out of
  the range from 100 to 200; the source removes the \<open>$\<close> in the middle, reads 150, and
  returns the listing. Likewise \<open>-$5.00\<close> is not a number as it stands, and the source
  reads \<open>-5\<close> and returns the listing for the bounds \<open>-10\<close> and 0.
\<close>

theorem ByPriceRange_leading_currency_counterexample:
  "num_le (Fin 100) (Fin 200)
   \<and> ByPriceRange [cabin] (Fin 100) (Fin 200) = Inr [cabin]
   \<and> get cabin ''price'' = JStr ''1$50''
   \<and> stated_price ''1$50'' = Fin 1
   \<and> \<not> stated_price_within (Fin 100) (Fin 200) cabin
   \<and> num_le (Fin (- 10)) (Fin 0)
   \<and> ByPriceRange [refund] (Fin (- 10)) (Fin 0) = Inr [refund]
   \<and> get refund ''price'' = JStr ''-$5.00''
   \<and> stated_price ''-$5.00'' = NaN
   \<and> \<not> stated_price_within (Fin (- 10)) (Fin 0) refund"
  by (simp add: ByPriceRange_def filteredListings_def price_match_def num_ge_def Let_def
      stated_price_within_def listing_defs price_refund stated_refund price_cabin stated_cabin)

text \<open>On a dataset whose prices are strings, bounds with \<open>min > max\<close> give the empty
  result, and the route answers with its no-listings message.\<close>

lemma ByPriceRange_reversed_typed:
  assumes "\<forall>item \<in> set airbnb_json. price_typed item"
  shows "(num_gt lo hi \<longrightarrow> ByPriceRange airbnb_json lo hi = Inr [])
    \<and> (price_errors minPrice maxPrice = []
         \<and> num_gt (parseFloat (sanitized minPrice)) (parseFloat (sanitized maxPrice)) \<longrightarrow>
       post_viewData_price airbnb_json minPrice maxPrice =
         Inr (Render ''price_result''
           [(''title'', Text [Str ''Search Result'']),
            (''message'', Text [Str ''No listings found between $'',
               Num (parseFloat (sanitized minPrice)), Str '' and $'',
               Num (parseFloat (sanitized maxPrice))])]))"
proof -
  have e: "ByPriceRange airbnb_json a b = Inr []" if "num_gt a b" for a b
    using ByPriceRange_filter [OF assms, of a b] that
    by (simp add: price_within_reversed)
  then show ?thesis
    by (simp add: post_viewData_price_def Let_def)
qed

text \<open>
  Claim C9. Bounds with \<open>min > max\<close> give the empty result on the two-record dataset:
  nothing is swapped, and the route answers with its no-listings message. They do not
  give it on every dataset: with a listing that has no \<open>price\<close> the callback reads
  \<open>replace\<close> from \<open>undefined\<close>, and the request for the bounds 500 and 100 ends in a
  TypeError instead of the empty result. This is the missing guard of the price filter
  again, the one that makes the request of claim C3 fail.
\<close>

theorem reversed_bounds_absent_price_throws:
  "num_gt (Fin 500) (Fin 100)
   \<and> price_errors (Some ''500'') (Some ''100'') = []
   \<and> ByPriceRange [cozy_loft, no_price] (Fin 500) (Fin 100) = Inl TypeError
   \<and> post_viewData_price [cozy_loft, no_price] (Some ''500'') (Some ''100'') = Inl TypeError
   \<and> ByPriceRange example_dataset (Fin 500) (Fin 100) = Inr []
   \<and> post_viewData_price example_dataset (Some ''500'') (Some ''100'') =
       Inr (Render ''price_result''
         [(''title'', Text [Str ''Search Result'']),
          (''message'', Text [Str ''No listings found between $'', Num (Fin 500),
             Str '' and $'', Num (Fin 100)])])"
proof -
  have gt: "num_gt (Fin 500) (Fin 100)"
    by simp
  have a: "ByPriceRange [cozy_loft, no_price] (Fin 500) (Fin 100) = Inl TypeError"
    by (simp add: ByPriceRange_def filteredListings_def price_match_def num_ge_def Let_def
        listing_defs price_100)
  have b: "post_viewData_price [cozy_loft, no_price] (Some ''500'') (Some ''100'') =
      Inl TypeError"
    using a by (simp add: post_viewData_price_def price_errors_500_100 sanitized_500
        sanitized_100 parse_500 parse_100)
  have c: "ByPriceRange example_dataset (Fin 500) (Fin 100) = Inr []"
    by (simp add: ByPriceRange_def filteredListings_def price_match_def num_ge_def Let_def
        listing_defs price_100 price_250)
  have d: "post_viewData_price example_dataset (Some ''500'') (Some ''100'') =
       Inr (Render ''price_result''
         [(''title'', Text [Str ''Search Result'']),
          (''message'', Text [Str ''No listings found between $'', Num (Fin 500),
             Str '' and $'', Num (Fin 100)])])"
    using c by (simp add: post_viewData_price_def price_errors_500_100 sanitized_500
        sanitized_100 parse_500 parse_100)
  from gt price_errors_500_100 a b c d show ?thesis by simp
qed

text \<open>
  Claim C3. A price that is a string but not a number excludes its listing without an
  error (the listing "on request" below). A listing without a \<open>price\<close> is not excluded:
  the callback reads \<open>replace\<close> from \<open>undefined\<close>, the filter throws a TypeError, and the
  request for the bounds 0 and 500 ends in that exception instead of a result.
\<close>

theorem ByPriceRange_absent_price_throws:
  "ByPriceRange [cozy_loft, no_price] (Fin 0) (Fin 500) = Inl TypeError
   \<and> post_viewData_price [cozy_loft, no_price] (Some ''0'') (Some ''500'') = Inl TypeError
   \<and> ByPriceRange [cozy_loft, on_request] (Fin 0) (Fin 500) = Inr [cozy_loft]"
proof -
  have a: "ByPriceRange [cozy_loft, no_price] (Fin 0) (Fin 500) = Inl TypeError"
    by (simp add: ByPriceRange_def filteredListings_def price_match_def num_ge_def Let_def
        listing_defs price_100)
  have b: "post_viewData_price [cozy_loft, no_price] (Some ''0'') (Some ''500'') = Inl TypeError"
    using a by (simp add: post_viewData_price_def price_errors_0_500 sanitized_0 sanitized_500
        parse_0 parse_500)
  have c: "ByPriceRange [cozy_loft, on_request] (Fin 0) (Fin 500) = Inr [cozy_loft]"
    by (simp add: ByPriceRange_def filteredListings_def price_match_def num_ge_def Let_def
        listing_defs price_100 price_on_request)
  from a b c show ?thesis by simp
qed

subsection \<open>Validation failures\<close>

text \<open>
  Claim C8. When a form field fails its validation (a required field is empty, or
  \<open>property_id\<close>, \<open>minPrice\<close> or \<open>maxPrice\<close> is not numeric), the list of errors is not
  empty, every error names its field, and the response is the form of the route rendered
  again with that list. The response is the same for every dataset: the handler returns
  before it reads \<open>airbnb_json\<close>.
\<close>

theorem validation_failure_rerenders_form:
  "(isEmpty (field_string property_id) \<or> \<not> isNumeric (field_string property_id) \<longrightarrow>
      property_id_errors property_id \<noteq> []
      \<and> (\<forall>e \<in> set (property_id_errors property_id). path e = ''property_id'')
      \<and> (\<forall>airbnb_json. post_search_invoiceID airbnb_json property_id =
            Inr (Render ''search_id_form''
              [(''title'', Text [Str ''Search by Invoice ID'']),
               (''errors'', Errors (property_id_errors property_id))])))
   \<and> (isEmpty (field_string name) \<longrightarrow>
      name_errors name \<noteq> []
      \<and> (\<forall>e \<in> set (name_errors name). path e = ''name'')
      \<and> (\<forall>airbnb_json. post_search_name airbnb_json name =
            Inr (Render ''search_name_form''
              [(''title'', Text [Str ''Search by Property Name'']),
               (''errors'', Errors (name_errors name))])))
   \<and> (isEmpty (field_string minPrice) \<or> \<not> isNumeric (field_string minPrice)
        \<or> isEmpty (field_string maxPrice) \<or> \<not> isNumeric (field_string maxPrice) \<longrightarrow>
      price_errors minPrice maxPrice \<noteq> []
      \<and> (\<forall>e \<in> set (price_errors minPrice maxPrice).
            path e = ''minPrice'' \<or> path e = ''maxPrice'')
      \<and> (\<forall>airbnb_json. post_viewData_price airbnb_json minPrice maxPrice =
            Inr (Render ''price_form''
              [(''title'', Text [Str ''Search by Price Range'']),
               (''errors'', Errors (price_errors minPrice maxPrice))])))"
proof -
  have i: "property_id_errors property_id \<noteq> []"
    if "isEmpty (field_string property_id) \<or> \<not> isNumeric (field_string property_id)"
    using that isEmpty_not_numeric [of "field_string property_id"]
    by (auto simp add: property_id_errors_def required_error_def numeric_error_def)
  have ip: "\<forall>e \<in> set (property_id_errors property_id). path e = ''property_id''"
    by (simp add: property_id_errors_def required_error_def numeric_error_def)
  have n: "name_errors name \<noteq> []" if "isEmpty (field_string name)"
    using that by (simp add: name_errors_def required_error_def)
  have np: "\<forall>e \<in> set (name_errors name). path e = ''name''"
    by (simp add: name_errors_def required_error_def)
  have p: "price_errors minPrice maxPrice \<noteq> []"
    if "isEmpty (field_string minPrice) \<or> \<not> isNumeric (field_string minPrice)
        \<or> isEmpty (field_string maxPrice) \<or> \<not> isNumeric (field_string maxPrice)"
    using that isEmpty_not_numeric [of "field_string minPrice"]
      isEmpty_not_numeric [of "field_string maxPrice"]
    by (auto simp add: price_errors_def required_error_def numeric_error_def)
  have pp: "\<forall>e \<in> set (price_errors minPrice maxPrice).
      path e = ''minPrice'' \<or> path e = ''maxPrice''"
    by (auto simp add: price_errors_def required_error_def numeric_error_def)
  show ?thesis
    using i ip n np p pp
    by (simp add: post_search_invoiceID_def post_search_name_def post_viewData_price_def Let_def)
qed

theorem validation_failure_rerenders_form_witness:
  "\<not> isNumeric (field_string (Some ''12a''))
   \<and> isEmpty (field_string None)
   \<and> isEmpty (field_string (Some []))
   \<and> post_search_invoiceID [no_price] (Some ''12a'') =
       Inr (Render ''search_id_form''
         [(''title'', Text [Str ''Search by Invoice ID'']),
          (''errors'', Errors
             [\<lparr>path = ''property_id'', msg = ''Property ID must be a number''\<rparr>])])
   \<and> post_search_name [no_price] None =
       Inr (Render ''search_name_form''
         [(''title'', Text [Str ''Search by Property Name'']),
          (''errors'', Errors [\<lparr>path = ''name'', msg = ''Property name is required''\<rparr>])])
   \<and> post_viewData_price [no_price] (Some ''10'') (Some []) =
       Inr (Render ''price_form''
         [(''title'', Text [Str ''Search by Price Range'']),
          (''errors'', Errors
             [\<lparr>path = ''maxPrice'', msg = ''Maximum price is required''\<rparr>,
              \<lparr>path = ''maxPrice'', msg = ''Maximum price must be a number''\<rparr>])])"
proof -
  have a: "\<not> isNumeric (field_string (Some ''12a''))"
    by (simp add: isNumeric_def field_string_def string_defs)
  have b: "isEmpty (field_string None)"
    by (simp add: isEmpty_def field_string_def)
  have c: "isEmpty (field_string (Some []))"
    by (simp add: isEmpty_def field_string_def)
  have ea: "property_id_errors (Some ''12a'') =
      [\<lparr>path = ''property_id'', msg = ''Property ID must be a number''\<rparr>]"
    by (simp add: property_id_errors_def required_error_def numeric_error_def isEmpty_def
        isNumeric_def field_string_def string_defs)
  have eb: "name_errors None = [\<lparr>path = ''name'', msg = ''Property name is required''\<rparr>]"
    by (simp add: name_errors_def required_error_def isEmpty_def field_string_def)
  have ec: "price_errors (Some ''10'') (Some []) =
      [\<lparr>path = ''maxPrice'', msg = ''Maximum price is required''\<rparr>,
       \<lparr>path = ''maxPrice'', msg = ''Maximum price must be a number''\<rparr>]"
    by (simp add: price_errors_def required_error_def numeric_error_def isEmpty_def
        isNumeric_def field_string_def string_defs)
  from validation_failure_rerenders_form [of "Some ''12a''" None "Some ''10''" "Some []"] a b c
  have "(\<forall>airbnb_json. post_search_invoiceID airbnb_json (Some ''12a'') =
            Inr (Render ''search_id_form''
              [(''title'', Text [Str ''Search by Invoice ID'']),
               (''errors'', Errors (property_id_errors (Some ''12a'')))]))
     \<and> (\<forall>airbnb_json. post_search_name airbnb_json None =
            Inr (Render ''search_name_form''
              [(''title'', Text [Str ''Search by Property Name'']),
               (''errors'', Errors (name_errors None))]))
     \<and> (\<forall>airbnb_json. post_viewData_price airbnb_json (Some ''10'') (Some []) =
            Inr (Render ''price_form''
              [(''title'', Text [Str ''Search by Price Range'']),
               (''errors'', Errors (price_errors (Some ''10'') (Some [])))]))"
    by blast
  with a b c ea eb ec show ?thesis
    by simp
qed

end
